theory Spec2Isabelle
  imports Complex_Main "HOL-Library.Word"
begin

section \<open>JavaScript values\<close>

text \<open>
  A JavaScript string is a sequence of UTF-16 code units; \<open>slice\<close>, \<open>length\<close> and \<open>trim\<close>
  count and inspect code units. \<open>js\<close> embeds an ASCII literal of the source.
\<close>

type_synonym jsstring = "16 word list"

definition js :: "string \<Rightarrow> jsstring" where
  "js s = map of_char s"

text \<open>
  \<open>String.prototype.trim\<close> removes WhiteSpace and LineTerminator code points from both ends:
  TAB, LF, VT, FF, CR, SP, NBSP, U+1680, U+2000..U+200A, LS, PS, U+202F, U+205F, U+3000 and
  the byte order mark. All of them are single code units.
\<close>

definition is_ws :: "16 word \<Rightarrow> bool" where
  "is_ws c \<longleftrightarrow>
     c \<in> {0x0009, 0x000A, 0x000B, 0x000C, 0x000D, 0x0020, 0x00A0, 0x1680,
          0x2028, 0x2029, 0x202F, 0x205F, 0x3000, 0xFEFF}
     \<or> (0x2000 \<le> c \<and> c \<le> 0x200A)"

definition trim :: "jsstring \<Rightarrow> jsstring" where
  "trim s = rev (dropWhile is_ws (rev (dropWhile is_ws s)))"

text \<open>\<open>s.slice(0, n)\<close> for a non-negative \<open>n\<close>: the first \<open>n\<close> code units, or all of \<open>s\<close>.\<close>

definition slice0 :: "nat \<Rightarrow> jsstring \<Rightarrow> jsstring" where
  "slice0 n s = take n s"

text \<open>
  A number is NaN, an infinity or a finite double; a finite double is an exact rational, and
  the comparisons and \<open>Number.isInteger\<close> used below depend on that value only.
\<close>

datatype jsnum = NaN | PosInf | NegInf | Fin rat

datatype jsval = JUndefined | JNull | JBool bool | JNum jsnum | JStr jsstring

text \<open>A plain object: its properties in insertion order. A property that is absent reads
  as \<open>undefined\<close>.\<close>

type_synonym jsobj = "(string \<times> jsval) list"

definition get_prop :: "jsobj \<Rightarrow> string \<Rightarrow> jsval" where
  "get_prop obj k = (case map_of obj k of None \<Rightarrow> JUndefined | Some v \<Rightarrow> v)"

fun set_prop :: "string \<Rightarrow> jsval \<Rightarrow> jsobj \<Rightarrow> jsobj" where
  "set_prop k v [] = [(k, v)]"
| "set_prop k v ((k', v') # obj) =
     (if k' = k then (k, v) # obj else (k', v') # set_prop k v obj)"

text \<open>Values of type \<open>T | null\<close> as JavaScript values.\<close>

definition nullable_js :: "('a \<Rightarrow> jsval) \<Rightarrow> 'a option \<Rightarrow> jsval" where
  "nullable_js f v = (case v of None \<Rightarrow> JNull | Some x \<Rightarrow> f x)"

text \<open>Truthiness of a \<open>string | null\<close>: \<open>null\<close> and the empty string are falsy.\<close>

definition truthy :: "jsstring option \<Rightarrow> bool" where
  "truthy v = (case v of None \<Rightarrow> False | Some s \<Rightarrow> s \<noteq> [])"

section \<open>The species row and the component's props\<close>

text \<open>
  \<open>Species\<close> is the row type of the \<open>species\<close> table (\<open>Database["public"]["Tables"]["species"]["Row"]\<close>).
  The type of the identifier is left open; \<open>id\<close> and \<open>image\<close> carry a prime because HOL
  has constants of these names.
\<close>

record 'id species =
  id' :: 'id
  scientific_name :: jsstring
  common_name :: "jsstring option"
  kingdom :: jsstring
  total_population :: "jsnum option"
  image' :: "jsstring option"
  description :: "jsstring option"
  author :: jsstring

section \<open>Local state\<close>

text \<open>
  The two \<open>useState\<close> cells and the value store of \<open>useForm\<close>. All three live as long as
  the component instance is mounted. \<open>useForm\<close> reads \<open>defaultValues\<close> when it creates the
  store; the source passes no \<open>shouldUnregister\<close> and never calls \<open>reset\<close>, so the store
  keeps a field's value while its input is not rendered. The inputs are bound to the store
  when the form is rendered (see \<open>register_inputs\<close> below), not when the component mounts.
\<close>

record ui_state =
  dialogOpen :: bool
  isEditing :: bool
  form_values :: jsobj

definition defaultValues :: "'id species \<Rightarrow> jsobj" where
  "defaultValues species =
     [(''scientific_name'', JStr (scientific_name species)),
      (''common_name'', nullable_js JStr (common_name species)),
      (''kingdom'', JStr (kingdom species)),
      (''total_population'', nullable_js JNum (total_population species)),
      (''description'', nullable_js JStr (description species)),
      (''image'', nullable_js JStr (image' species))]"

text \<open>The state of a freshly mounted card: \<open>useState(false)\<close> twice, and the form store
  created from \<open>defaultValues\<close>.\<close>

definition mount :: "'id species \<Rightarrow> ui_state" where
  "mount species =
     \<lparr>dialogOpen = False, isEditing = False, form_values = defaultValues species\<rparr>"

section \<open>What the component renders\<close>

text \<open>The card's summary paragraph:
  \<open>species.description ? species.description.slice(0, 150).trim() + "..." : ""\<close>.\<close>

definition summary_text :: "'id species \<Rightarrow> jsstring" where
  "summary_text species =
     (if truthy (description species)
      then trim (slice0 150 (the (description species))) @ js ''...''
      else [])"

text \<open>
  The dialog. In edit mode its body is the form, seen as the working copy the form store
  holds for the six fields (a text input displays its stored string and is empty for null;
  the select falls back to \<open>"Animalia"\<close> for a nullish kingdom); otherwise the body is the
  read-only detail block (kingdom and total population; the locale formatting of the number
  is not modelled).
\<close>

datatype dialog_body = Form jsobj | Details jsstring "jsnum option"

record dialog_view =
  dialog_title :: jsstring
  dialog_description :: jsstring
  dialog_image :: "jsstring option"
  body :: dialog_body
  edit_button :: bool

definition form_inputs :: "jsobj \<Rightarrow> jsobj" where
  "form_inputs values =
     [(''scientific_name'', get_prop values ''scientific_name''),
      (''common_name'', get_prop values ''common_name''),
      (''kingdom'',
         (case get_prop values ''kingdom'' of
            JUndefined \<Rightarrow> JStr (js ''Animalia'')
          | JNull \<Rightarrow> JStr (js ''Animalia'')
          | v \<Rightarrow> v)),
      (''total_population'', get_prop values ''total_population''),
      (''image'', get_prop values ''image''),
      (''description'', get_prop values ''description'')]"

definition dialog :: "'id species \<Rightarrow> jsstring \<Rightarrow> ui_state \<Rightarrow> dialog_view" where
  "dialog species sessionId st =
     \<lparr>dialog_title =
        (if isEditing st then js ''Edit Species''
         else (case common_name species of None \<Rightarrow> js ''null'' | Some c \<Rightarrow> c)
              @ js '' ('' @ scientific_name species @ js '')''),
      dialog_description =
        (if isEditing st then js ''Update species details below.''
         else if truthy (description species) then the (description species)
         else js ''No description available.''),
      dialog_image =
        (if truthy (image' species) \<and> \<not> isEditing st then image' species else None),
      body =
        (if isEditing st then Form (form_inputs (form_values st))
         else Details (kingdom species) (total_population species)),
      edit_button = (author species = sessionId \<and> \<not> isEditing st)\<rparr>"

record card_view =
  card_image :: "jsstring option"
  heading :: jsstring
  subheading :: "jsstring option"
  summary :: jsstring
  open_dialog :: "dialog_view option"

definition render :: "'id species \<Rightarrow> jsstring \<Rightarrow> ui_state \<Rightarrow> card_view" where
  "render species sessionId st =
     \<lparr>card_image = (if truthy (image' species) then image' species else None),
      heading = scientific_name species,
      subheading = common_name species,
      summary = summary_text species,
      open_dialog = (if dialogOpen st then Some (dialog species sessionId st) else None)\<rparr>"

section \<open>The validation schema\<close>

text \<open>
  The schema is written with the combinators of the zod library (version 3). A schema maps a
  JavaScript value to the list of issues it raises or to its typed output. A string or
  number schema first tests the type of the input and then runs its checks in the order
  they were chained; a check may raise issues and may replace the value (\<open>trim\<close>), and a
  later check sees the value the earlier ones left. The schema fails when any issue was
  raised. Each issue is named after the check that raises it.
\<close>

datatype issue =
    Expected_string
  | Expected_number
  | Too_short
  | Invalid_url
  | Invalid_enum_value
  | Expected_integer
  | Not_positive
  | Below_minimum

type_synonym 'a check = "'a \<Rightarrow> issue list \<times> 'a"

type_synonym 'a schema = "jsval \<Rightarrow> issue list + 'a"

fun run_checks :: "'a check list \<Rightarrow> 'a \<Rightarrow> issue list \<times> 'a" where
  "run_checks [] x = ([], x)"
| "run_checks (c # cs) x =
     (case c x of (is1, x1) \<Rightarrow>
        (case run_checks cs x1 of (is2, x2) \<Rightarrow> (is1 @ is2, x2)))"

definition checked :: "'a check list \<Rightarrow> 'a \<Rightarrow> issue list + 'a" where
  "checked cs x = (case run_checks cs x of (issues, y) \<Rightarrow> if issues = [] then Inr y else Inl issues)"

text \<open>\<open>z.string()\<close> with its checks \<open>.trim()\<close>, \<open>.min(n)\<close> and \<open>.url()\<close>. The url check
  asks whether the \<open>URL\<close> constructor accepts the string; that test belongs to the platform
  and is the parameter \<open>is_url\<close>.\<close>

definition z_string :: "jsstring check list \<Rightarrow> jsstring schema" where
  "z_string cs v = (case v of JStr s \<Rightarrow> checked cs s | _ \<Rightarrow> Inl [Expected_string])"

definition z_trim :: "jsstring check" where
  "z_trim s = ([], trim s)"

definition z_min_length :: "nat \<Rightarrow> jsstring check" where
  "z_min_length n s = (if length s < n then [Too_short] else [], s)"

definition z_url :: "(jsstring \<Rightarrow> bool) \<Rightarrow> jsstring check" where
  "z_url is_url s = (if is_url s then [] else [Invalid_url], s)"

text \<open>\<open>z.number()\<close> rejects NaN with every value that is not a number; \<open>.int()\<close> is
  \<open>Number.isInteger\<close>, \<open>.positive()\<close> is \<open>> 0\<close> and \<open>.min(n)\<close> is \<open>>= n\<close>.\<close>

fun is_integer :: "jsnum \<Rightarrow> bool" where
  "is_integer (Fin q) = (of_int \<lfloor>q\<rfloor> = q)"
| "is_integer _ = False"

fun greater :: "jsnum \<Rightarrow> rat \<Rightarrow> bool" where
  "greater (Fin q) c = (c < q)"
| "greater PosInf c = True"
| "greater _ c = False"

fun greater_eq :: "jsnum \<Rightarrow> rat \<Rightarrow> bool" where
  "greater_eq (Fin q) c = (c \<le> q)"
| "greater_eq PosInf c = True"
| "greater_eq _ c = False"

definition z_number :: "jsnum check list \<Rightarrow> jsnum schema" where
  "z_number cs v =
     (case v of
        JNum NaN \<Rightarrow> Inl [Expected_number]
      | JNum n \<Rightarrow> checked cs n
      | _ \<Rightarrow> Inl [Expected_number])"

definition z_int :: "jsnum check" where
  "z_int n = (if is_integer n then [] else [Expected_integer], n)"

definition z_positive :: "jsnum check" where
  "z_positive n = (if greater n 0 then [] else [Not_positive], n)"

definition z_min :: "rat \<Rightarrow> jsnum check" where
  "z_min c n = (if greater_eq n c then [] else [Below_minimum], n)"

text \<open>\<open>z.enum(options)\<close>, \<open>.nullable()\<close> and \<open>.transform(f)\<close>. A transform runs only on the
  output of a schema that raised no issue.\<close>

definition z_enum :: "jsstring list \<Rightarrow> jsstring schema" where
  "z_enum options v =
     (case v of
        JStr s \<Rightarrow> if List.member options s then Inr s else Inl [Invalid_enum_value]
      | _ \<Rightarrow> Inl [Expected_string])"

definition nullable :: "'a schema \<Rightarrow> 'a option schema" where
  "nullable sch v = (if v = JNull then Inr None else map_sum (\<lambda>is. is) Some (sch v))"

definition transform :: "'a schema \<Rightarrow> ('a \<Rightarrow> 'b) \<Rightarrow> 'b schema" where
  "transform sch f v = map_sum (\<lambda>is. is) f (sch v)"

text \<open>\<open>z.object(shape)\<close> parses the property of every key of the shape, in the order of the
  shape, and collects the issues under the key that raised them. Its output holds the keys
  of the shape and nothing else. \<open>field\<close> stores a typed output as a JavaScript value.\<close>

definition field :: "('a \<Rightarrow> jsval) \<Rightarrow> 'a schema \<Rightarrow> jsval schema" where
  "field f sch v = map_sum (\<lambda>is. is) f (sch v)"

fun parse_fields :: "(string \<times> jsval schema) list \<Rightarrow> jsobj \<Rightarrow> (string \<times> issue) list \<times> jsobj" where
  "parse_fields [] input = ([], [])"
| "parse_fields ((k, sch) # shape) input =
     (case parse_fields shape input of (issues, out) \<Rightarrow>
        (case sch (get_prop input k) of
           Inl is \<Rightarrow> (map (Pair k) is @ issues, out)
         | Inr v \<Rightarrow> (issues, (k, v) # out)))"

definition z_object :: "(string \<times> jsval schema) list \<Rightarrow> jsobj \<Rightarrow> (string \<times> issue) list + jsobj" where
  "z_object shape input =
     (case parse_fields shape input of (issues, out) \<Rightarrow> if issues = [] then Inr out else Inl issues)"

text \<open>The schema of the source, field by field.\<close>

definition kingdoms :: "jsstring list" where
  "kingdoms = [js ''Animalia'', js ''Plantae'', js ''Fungi'', js ''Protista'', js ''Archaea'', js ''Bacteria'']"

text \<open>\<open>(val) => (!val || val.trim() === "" ? null : val.trim())\<close> on a \<open>string | null\<close>.\<close>

definition blank_to_null :: "jsstring option \<Rightarrow> jsstring option" where
  "blank_to_null val =
     (case val of
        None \<Rightarrow> None
      | Some s \<Rightarrow> if s = [] \<or> trim s = [] then None else Some (trim s))"

definition scientific_name_schema :: "jsstring schema" where
  "scientific_name_schema = transform (z_string [z_trim, z_min_length 1]) trim"

definition common_name_schema :: "jsstring option schema" where
  "common_name_schema = transform (nullable (z_string [])) blank_to_null"

definition kingdom_schema :: "jsstring schema" where
  "kingdom_schema = z_enum kingdoms"

definition total_population_schema :: "jsnum option schema" where
  "total_population_schema = nullable (z_number [z_int, z_positive, z_min 1])"

definition image_schema :: "(jsstring \<Rightarrow> bool) \<Rightarrow> jsstring option schema" where
  "image_schema is_url = transform (nullable (z_string [z_url is_url])) blank_to_null"

definition description_schema :: "jsstring option schema" where
  "description_schema = transform (nullable (z_string [])) blank_to_null"

definition speciesSchema :: "(jsstring \<Rightarrow> bool) \<Rightarrow> jsobj \<Rightarrow> (string \<times> issue) list + jsobj" where
  "speciesSchema is_url =
     z_object
       [(''scientific_name'', field JStr scientific_name_schema),
        (''common_name'', field (nullable_js JStr) common_name_schema),
        (''kingdom'', field JStr kingdom_schema),
        (''total_population'', field (nullable_js JNum) total_population_schema),
        (''image'', field (nullable_js JStr) (image_schema is_url)),
        (''description'', field (nullable_js JStr) description_schema)]"

text \<open>
  \<open>Number(value)\<close>: \<open>undefined\<close> converts to NaN, \<open>null\<close> to 0, \<open>false\<close> and \<open>true\<close> to 0 and 1,
  a number to itself. The conversion of a string (the grammar of numeric literals) is the
  platform's and is the parameter \<open>string_to_number\<close>.
\<close>

definition Number :: "(jsstring \<Rightarrow> jsnum) \<Rightarrow> jsval \<Rightarrow> jsnum" where
  "Number string_to_number v =
     (case v of
        JUndefined \<Rightarrow> NaN
      | JNull \<Rightarrow> Fin 0
      | JBool b \<Rightarrow> Fin (if b then 1 else 0)
      | JNum n \<Rightarrow> n
      | JStr s \<Rightarrow> string_to_number s)"

text \<open>The \<open>setValueAs\<close> of the population input:
  \<open>(value) => (value === "" ? null : Number(value))\<close>.\<close>

definition setValueAs :: "(jsstring \<Rightarrow> jsnum) \<Rightarrow> jsval \<Rightarrow> jsval" where
  "setValueAs string_to_number v =
     (if v = JStr [] then JNull else JNum (Number string_to_number v))"

section \<open>The submission handler\<close>

text \<open>
  The collaborators are seen through the calls made to them: the update request
  \<open>supabase.from(table).update(values).eq(column, value)\<close>, \<open>router.refresh()\<close> and
  \<open>toast({title, description, variant})\<close> (no variant key on the success toast). The store
  answers a request with an error or with none.
\<close>

record 'id update_request =
  from_table :: string
  update_values :: jsobj
  eq_column :: string
  eq_value :: 'id

datatype postgrest_error = PostgrestError (message: jsstring)

datatype 'id effect =
    Update "'id update_request"
  | Refresh
  | Toast jsstring jsstring "jsstring option"

definition update_request_of :: "'id species \<Rightarrow> jsobj \<Rightarrow> 'id update_request" where
  "update_request_of species input =
     \<lparr>from_table = ''species'',
      update_values =
        [(''scientific_name'', get_prop input ''scientific_name''),
         (''common_name'', get_prop input ''common_name''),
         (''kingdom'', get_prop input ''kingdom''),
         (''total_population'', get_prop input ''total_population''),
         (''description'', get_prop input ''description''),
         (''image'', get_prop input ''image'')],
      eq_column = ''id'',
      eq_value = id' species\<rparr>"

definition onSubmit ::
  "('id update_request \<Rightarrow> postgrest_error option) \<Rightarrow> 'id species \<Rightarrow> jsobj \<Rightarrow> ui_state
     \<Rightarrow> ui_state \<times> 'id effect list" where
  "onSubmit supabase species input st =
     (let request = update_request_of species input in
      case supabase request of
        Some error \<Rightarrow>
          (st,
           [Update request,
            Toast (js ''Something went wrong.'') (message error) (Some (js ''destructive''))])
      | None \<Rightarrow>
          (st\<lparr>dialogOpen := False\<rparr>,
           [Update request,
            Refresh,
            Toast (js ''Species updated!'') (js ''Changes saved successfully.'') None]))"

text \<open>\<open>form.handleSubmit(onSubmit)\<close> with the zod resolver: the form store is validated, and
  \<open>onSubmit\<close> is called with the schema's output only when no issue was raised.\<close>

definition handleSubmit ::
  "(jsstring \<Rightarrow> bool) \<Rightarrow> ('id update_request \<Rightarrow> postgrest_error option) \<Rightarrow> 'id species
     \<Rightarrow> ui_state \<Rightarrow> ui_state \<times> 'id effect list" where
  "handleSubmit is_url supabase species st =
     (case speciesSchema is_url (form_values st) of
        Inl issues \<Rightarrow> (st, [])
      | Inr data \<Rightarrow> onSubmit supabase species data st)"

section \<open>Events\<close>

text \<open>
  The handlers of the controls. \<open>Learn_More\<close> is the card's button; \<open>Open_change b\<close> is the
  dialog reporting that it wants to be open or closed (\<open>onOpenChange={setDialogOpen}\<close>);
  \<open>Edit\<close> exists only while the edit button is rendered; \<open>Change k s\<close> (the user sets the
  input or select named \<open>k\<close> to the text \<open>s\<close>) and \<open>Submit\<close> exist only while the form is
  rendered. An event whose control is not rendered does nothing.
\<close>

datatype event = Learn_More | Open_change bool | Edit | Change string jsstring | Submit

text \<open>The fields that have a control in the form, and the five of them that are inputs
  bound with \<open>form.register\<close> (the kingdom's select writes with \<open>form.setValue\<close>).\<close>

definition registered :: "string list" where
  "registered =
     [''scientific_name'', ''common_name'', ''kingdom'', ''total_population'', ''image'', ''description'']"

definition register_names :: "string list" where
  "register_names =
     [''scientific_name'', ''common_name'', ''total_population'', ''image'', ''description'']"

text \<open>The value a control's change handler stores: the text of the control, for the
  population input passed through its \<open>setValueAs\<close>.\<close>

definition changed_value :: "(jsstring \<Rightarrow> jsnum) \<Rightarrow> string \<Rightarrow> jsstring \<Rightarrow> jsval" where
  "changed_value string_to_number k s =
     (if k = ''total_population'' then setValueAs string_to_number (JStr s) else JStr s)"

definition form_rendered :: "ui_state \<Rightarrow> bool" where
  "form_rendered st = (dialogOpen st \<and> isEditing st)"

text \<open>
  When the form is rendered its inputs mount, and \<open>form.register\<close> binds each of them to the
  store: the store's value for the field is written back through the field's \<open>setValueAs\<close>
  (only the population input has one), and a field the store has no value for takes the
  value of the empty input. So a stored population of \<open>null\<close> becomes \<open>Number(null)\<close>, which
  is 0, as soon as the form is shown.
\<close>

definition mounted_value :: "(jsstring \<Rightarrow> jsnum) \<Rightarrow> string \<Rightarrow> jsval \<Rightarrow> jsval" where
  "mounted_value string_to_number k v =
     (if v = JUndefined then changed_value string_to_number k []
      else if k = ''total_population'' then setValueAs string_to_number v
      else v)"

fun register_all :: "(jsstring \<Rightarrow> jsnum) \<Rightarrow> string list \<Rightarrow> jsobj \<Rightarrow> jsobj" where
  "register_all string_to_number [] values = values"
| "register_all string_to_number (k # ks) values =
     register_all string_to_number ks
       (set_prop k (mounted_value string_to_number k (get_prop values k)) values)"

definition register_inputs :: "(jsstring \<Rightarrow> jsnum) \<Rightarrow> jsobj \<Rightarrow> jsobj" where
  "register_inputs string_to_number values = register_all string_to_number register_names values"

text \<open>\<open>show_form st0 st1\<close>: the inputs mount when the form is rendered in the state \<open>st1\<close>
  after the event and was not in the state \<open>st0\<close> before it.\<close>

definition show_form :: "(jsstring \<Rightarrow> jsnum) \<Rightarrow> ui_state \<Rightarrow> ui_state \<Rightarrow> ui_state" where
  "show_form string_to_number st0 st1 =
     (if form_rendered st1 \<and> \<not> form_rendered st0
      then st1\<lparr>form_values := register_inputs string_to_number (form_values st1)\<rparr>
      else st1)"

fun step ::
  "(jsstring \<Rightarrow> bool) \<Rightarrow> (jsstring \<Rightarrow> jsnum) \<Rightarrow> ('id update_request \<Rightarrow> postgrest_error option)
     \<Rightarrow> 'id species \<Rightarrow> jsstring \<Rightarrow> ui_state \<Rightarrow> event \<Rightarrow> ui_state \<times> 'id effect list" where
  "step is_url string_to_number supabase species sessionId st Learn_More =
     (st\<lparr>dialogOpen := True, isEditing := False\<rparr>, [])"
| "step is_url string_to_number supabase species sessionId st (Open_change b) =
     (show_form string_to_number st (st\<lparr>dialogOpen := b\<rparr>), [])"
| "step is_url string_to_number supabase species sessionId st Edit =
     (if dialogOpen st \<and> edit_button (dialog species sessionId st)
      then (show_form string_to_number st (st\<lparr>isEditing := True\<rparr>), [])
      else (st, []))"
| "step is_url string_to_number supabase species sessionId st (Change k s) =
     (if form_rendered st \<and> List.member registered k
      then (st\<lparr>form_values := set_prop k (changed_value string_to_number k s) (form_values st)\<rparr>, [])
      else (st, []))"
| "step is_url string_to_number supabase species sessionId st Submit =
     (if form_rendered st then handleSubmit is_url supabase species st else (st, []))"

fun run ::
  "(jsstring \<Rightarrow> bool) \<Rightarrow> (jsstring \<Rightarrow> jsnum) \<Rightarrow> ('id update_request \<Rightarrow> postgrest_error option)
     \<Rightarrow> 'id species \<Rightarrow> jsstring \<Rightarrow> ui_state \<Rightarrow> event list \<Rightarrow> ui_state \<times> 'id effect list" where
  "run is_url string_to_number supabase species sessionId st [] = (st, [])"
| "run is_url string_to_number supabase species sessionId st (e # es) =
     (case step is_url string_to_number supabase species sessionId st e of (st1, fx1) \<Rightarrow>
        (case run is_url string_to_number supabase species sessionId st1 es of (st2, fx2) \<Rightarrow>
           (st2, fx1 @ fx2)))"

section \<open>Observing a handler's effects\<close>

definition refreshes :: "'id effect list \<Rightarrow> nat" where
  "refreshes fx = length (filter (\<lambda>e. case e of Refresh \<Rightarrow> True | _ \<Rightarrow> False) fx)"

fun toasts :: "'id effect list \<Rightarrow> (jsstring \<times> jsstring \<times> jsstring option) list" where
  "toasts [] = []"
| "toasts (Toast t d v # fx) = (t, d, v) # toasts fx"
| "toasts (_ # fx) = toasts fx"

fun updates :: "'id effect list \<Rightarrow> 'id update_request list" where
  "updates [] = []"
| "updates (Update r # fx) = r # updates fx"
| "updates (_ # fx) = updates fx"

text \<open>Whether the edit button is on screen.\<close>

definition edit_control :: "'id species \<Rightarrow> jsstring \<Rightarrow> ui_state \<Rightarrow> bool" where
  "edit_control species sessionId st =
     (case open_dialog (render species sessionId st) of
        None \<Rightarrow> False
      | Some d \<Rightarrow> edit_button d)"

section \<open>Concrete instances\<close>

text \<open>
  A record, two stores and sample platform functions, for the concrete instances of the
  theorems below. \<open>url_has_scheme\<close> tests that a string, after leading spaces and control
  characters, starts with a scheme (a letter, then letters, digits, \<open>+\<close>, \<open>-\<close> or \<open>.\<close>, then a
  colon); \<open>decimal_to_number\<close> converts a non-empty string of decimal digits and gives NaN
  for every other string. The theorems hold for every validity test and conversion; these
  two only instantiate them.
\<close>

definition example_species :: "nat species" where
  "example_species =
     \<lparr>id' = 7,
      scientific_name = js ''Panthera leo'',
      common_name = Some (js ''Lion''),
      kingdom = js ''Animalia'',
      total_population = Some (Fin 20000),
      image' = None,
      description = Some (js ''A big cat.''),
      author = js ''user-1''\<rparr>"

definition store_accepts :: "nat update_request \<Rightarrow> postgrest_error option" where
  "store_accepts request = None"

definition store_rejects :: "nat update_request \<Rightarrow> postgrest_error option" where
  "store_rejects request = Some (PostgrestError (js ''duplicate key''))"

definition is_alpha :: "16 word \<Rightarrow> bool" where
  "is_alpha c \<longleftrightarrow> (0x41 \<le> c \<and> c \<le> 0x5A) \<or> (0x61 \<le> c \<and> c \<le> 0x7A)"

definition is_digit :: "16 word \<Rightarrow> bool" where
  "is_digit c \<longleftrightarrow> 0x30 \<le> c \<and> c \<le> 0x39"

definition is_scheme_char :: "16 word \<Rightarrow> bool" where
  "is_scheme_char c \<longleftrightarrow> is_alpha c \<or> is_digit c \<or> c = 0x2B \<or> c = 0x2D \<or> c = 0x2E"

definition is_c0_or_space :: "16 word \<Rightarrow> bool" where
  "is_c0_or_space c \<longleftrightarrow> c \<le> 0x20"

definition url_has_scheme :: "jsstring \<Rightarrow> bool" where
  "url_has_scheme s =
     (case dropWhile is_c0_or_space s of
        [] \<Rightarrow> False
      | c # cs \<Rightarrow>
          is_alpha c \<and> (case dropWhile is_scheme_char cs of [] \<Rightarrow> False | d # ds \<Rightarrow> d = 0x3A))"

definition decimal_to_number :: "jsstring \<Rightarrow> jsnum" where
  "decimal_to_number s =
     (if s \<noteq> [] \<and> list_all is_digit s
      then Fin (of_nat (foldl (\<lambda>n c. 10 * n + (unat c - 48)) 0 s))
      else NaN)"

section \<open>Facts about trimming and the schema combinators\<close>

lemma trim_blank_iff: "trim s = [] \<longleftrightarrow> list_all is_ws s"
proof
  assume "trim s = []"
  then have a: "\<forall>c \<in> set (dropWhile is_ws s). is_ws c"
    by (simp add: trim_def)
  have "dropWhile is_ws s = []"
  proof (rule ccontr)
    assume n: "dropWhile is_ws s \<noteq> []"
    then have "\<not> is_ws (hd (dropWhile is_ws s))" by (rule hd_dropWhile)
    moreover have "hd (dropWhile is_ws s) \<in> set (dropWhile is_ws s)" using n by simp
    ultimately show False using a by blast
  qed
  then show "list_all is_ws s" by (simp add: list_all_iff)
next
  assume "list_all is_ws s"
  then have d: "dropWhile is_ws s = []" by (simp add: list_all_iff)
  show "trim s = []" unfolding trim_def d by simp
qed

lemma blank_to_null_Some:
  "blank_to_null (Some s) = (if list_all is_ws s then None else Some (trim s))"
  by (auto simp: blank_to_null_def trim_blank_iff)

lemma checked_Nil: "checked [] x = Inr x"
  by (simp add: checked_def)

lemma checked_issue: "checked cs x = Inl iss \<Longrightarrow> iss \<noteq> []"
  by (auto simp: checked_def split: prod.splits if_splits)

text \<open>A schema that fails raises at least one issue.\<close>

lemma z_string_issue: "\<forall>v iss. z_string cs v = Inl iss \<longrightarrow> iss \<noteq> []"
proof (intro allI impI)
  fix v iss assume "z_string cs v = Inl iss"
  then show "iss \<noteq> []"
    by (cases v) (auto simp: z_string_def dest: checked_issue)
qed

lemma z_number_issue: "\<forall>v iss. z_number cs v = Inl iss \<longrightarrow> iss \<noteq> []"
proof (intro allI impI)
  fix v iss assume "z_number cs v = Inl iss"
  then show "iss \<noteq> []"
    by (cases v) (auto simp: z_number_def dest: checked_issue split: jsnum.splits)
qed

lemma z_enum_issue: "\<forall>v iss. z_enum options v = Inl iss \<longrightarrow> iss \<noteq> []"
proof (intro allI impI)
  fix v iss assume "z_enum options v = Inl iss"
  then show "iss \<noteq> []"
    by (cases v) (auto simp: z_enum_def split: if_splits)
qed

lemma nullable_issue:
  assumes "\<forall>v iss. sch v = Inl iss \<longrightarrow> iss \<noteq> []"
  shows "\<forall>v iss. nullable sch v = Inl iss \<longrightarrow> iss \<noteq> []"
proof (intro allI impI)
  fix v iss assume "nullable sch v = Inl iss"
  with assms show "iss \<noteq> []"
    by (cases "sch v") (auto simp: nullable_def split: if_splits)
qed

lemma transform_issue:
  assumes "\<forall>v iss. sch v = Inl iss \<longrightarrow> iss \<noteq> []"
  shows "\<forall>v iss. transform sch f v = Inl iss \<longrightarrow> iss \<noteq> []"
proof (intro allI impI)
  fix v iss assume "transform sch f v = Inl iss"
  with assms show "iss \<noteq> []"
    by (cases "sch v") (auto simp: transform_def)
qed

lemma field_issue:
  assumes "\<forall>v iss. sch v = Inl iss \<longrightarrow> iss \<noteq> []"
  shows "\<forall>v iss. field f sch v = Inl iss \<longrightarrow> iss \<noteq> []"
proof (intro allI impI)
  fix v iss assume "field f sch v = Inl iss"
  with assms show "iss \<noteq> []"
    by (cases "sch v") (auto simp: field_def)
qed

lemma field_defined:
  "(\<And>x. f x \<noteq> JUndefined) \<Longrightarrow> field f sch v = Inr y \<Longrightarrow> y \<noteq> JUndefined"
  by (cases "sch v") (auto simp: field_def)

lemma nullable_js_defined:
  "(\<And>x. f x \<noteq> JUndefined) \<Longrightarrow> nullable_js f v \<noteq> JUndefined"
  by (cases v) (auto simp: nullable_js_def)

text \<open>The object schema: one failing key fails the object; a passing object holds each
  key's output.\<close>

lemma parse_fields_issue:
  "(k, sch) \<in> set shape \<Longrightarrow> sch (get_prop input k) = Inl (i # iss) \<Longrightarrow>
   fst (parse_fields shape input) \<noteq> []"
  by (induction shape) (auto split: prod.splits sum.splits)

lemma parse_fields_value:
  "fst (parse_fields shape input) = [] \<Longrightarrow> distinct (map fst shape) \<Longrightarrow>
   (k, sch) \<in> set shape \<Longrightarrow> sch (get_prop input k) = Inr v \<Longrightarrow>
   map_of (snd (parse_fields shape input)) k = Some v"
proof (induction shape)
  case Nil
  then show ?case by simp
next
  case (Cons a shape)
  obtain k' sch' where a: "a = (k', sch')" by (cases a)
  obtain issues out where p: "parse_fields shape input = (issues, out)"
    by (cases "parse_fields shape input")
  show ?case
  proof (cases "k' = k")
    case True
    with Cons.prems a have "sch' = sch" by (auto simp: image_iff)
    with Cons.prems a p True show ?thesis by (simp split: sum.splits)
  next
    case False
    with Cons.prems a p have i: "issues = []" by (auto split: sum.splits)
    from False Cons.prems a have m: "(k, sch) \<in> set shape" by auto
    from Cons.IH i p Cons.prems m a have "map_of out k = Some v" by simp
    with False a p show ?thesis by (simp split: sum.splits)
  qed
qed

lemma parse_fields_defined:
  "parse_fields shape input = ([], out) \<Longrightarrow>
   (\<And>k sch v y. (k, sch) \<in> set shape \<Longrightarrow> sch v = Inr y \<Longrightarrow> y \<noteq> JUndefined) \<Longrightarrow>
   (\<And>k sch v iss. (k, sch) \<in> set shape \<Longrightarrow> sch v = Inl iss \<Longrightarrow> iss \<noteq> []) \<Longrightarrow>
   map fst out = map fst shape \<and> list_all (\<lambda>(k, v). v \<noteq> JUndefined) out"
proof (induction shape arbitrary: out)
  case Nil
  then show ?case by simp
next
  case (Cons a shape)
  obtain k sch where a: "a = (k, sch)" by (cases a)
  obtain issues out' where p: "parse_fields shape input = (issues, out')"
    by (cases "parse_fields shape input")
  show ?case
  proof (cases "sch (get_prop input k)")
    case (Inl iss)
    with Cons.prems(3) [of k sch "get_prop input k" iss] a have "iss \<noteq> []" by simp
    with Cons.prems(1) a p Inl show ?thesis by simp
  next
    case (Inr y)
    with Cons.prems(1) a p have i: "issues = []" and o: "out = (k, y) # out'" by auto
    from Cons.prems(2) [of k sch "get_prop input k" y] a Inr have y: "y \<noteq> JUndefined" by simp
    have "map fst out' = map fst shape \<and> list_all (\<lambda>(k, v). v \<noteq> JUndefined) out'"
    proof (rule Cons.IH)
      show "parse_fields shape input = ([], out')" using p i by simp
    next
      fix k sch v y assume "(k, sch) \<in> set shape" "sch v = Inr y"
      then show "y \<noteq> JUndefined" using Cons.prems(2) [of k sch v y] by simp
    next
      fix k sch v iss assume "(k, sch) \<in> set shape" "sch v = Inl iss"
      then show "iss \<noteq> []" using Cons.prems(3) [of k sch v iss] by simp
    qed
    with o y a show ?thesis by simp
  qed
qed

lemma z_object_Inr:
  "z_object shape input = Inr data \<Longrightarrow> parse_fields shape input = ([], data)"
  by (auto simp: z_object_def split: prod.splits if_splits)

lemma z_object_value:
  assumes "z_object shape input = Inr data" and "distinct (map fst shape)"
    and "(k, sch) \<in> set shape" and "sch (get_prop input k) = Inr v"
  shows "get_prop data k = v"
  using parse_fields_value [of shape input k sch v] z_object_Inr [OF assms(1)] assms
  by (simp add: get_prop_def)

lemma z_object_issue:
  assumes "(k, sch) \<in> set shape" and "sch (get_prop input k) = Inl (i # iss)"
  shows "isl (z_object shape input)"
  using parse_fields_issue [OF assms]
  by (auto simp: z_object_def split: prod.splits)

lemma get_prop_defined:
  "list_all (\<lambda>(k, v). v \<noteq> JUndefined) obj \<Longrightarrow> k \<in> set (map fst obj) \<Longrightarrow>
   get_prop obj k \<noteq> JUndefined"
  by (induction obj) (auto simp: get_prop_def)

lemma get_prop_set_prop: "get_prop (set_prop k v obj) k = v"
  by (induction obj) (auto simp: get_prop_def)

section \<open>Facts about the schema of the source\<close>

lemma scientific_name_blank:
  "list_all is_ws s \<Longrightarrow> scientific_name_schema (JStr s) = Inl [Too_short]"
  by (simp add: scientific_name_schema_def transform_def z_string_def checked_def z_trim_def
      z_min_length_def trim_blank_iff)

lemma optional_text_string:
  "transform (nullable (z_string [])) blank_to_null (JStr s) =
     Inr (if list_all is_ws s then None else Some (trim s))"
  by (simp add: transform_def nullable_def z_string_def checked_Nil blank_to_null_Some)

lemma optional_text_null:
  "transform (nullable (z_string [])) blank_to_null JNull = Inr None"
  by (simp add: transform_def nullable_def blank_to_null_def)

lemma update_values_prop:
  "List.member registered k \<Longrightarrow>
   get_prop (update_values (update_request_of species data)) k = get_prop data k"
  by (auto simp: registered_def update_request_of_def get_prop_def)

lemma image_schema_string:
  "image_schema is_url (JStr s) =
     (if is_url s then Inr (if list_all is_ws s then None else Some (trim s))
      else Inl [Invalid_url])"
  by (simp add: image_schema_def transform_def nullable_def z_string_def checked_def z_url_def
      blank_to_null_Some)

lemma image_schema_null: "image_schema is_url JNull = Inr None"
  by (simp add: image_schema_def transform_def nullable_def blank_to_null_def)

lemma speciesSchema_output:
  assumes "speciesSchema is_url input = Inr data"
  shows "map fst data =
      [''scientific_name'', ''common_name'', ''kingdom'', ''total_population'', ''image'', ''description'']
    \<and> list_all (\<lambda>(k, v). v \<noteq> JUndefined) data"
proof -
  let ?shape = "[(''scientific_name'', field JStr scientific_name_schema),
        (''common_name'', field (nullable_js JStr) common_name_schema),
        (''kingdom'', field JStr kingdom_schema),
        (''total_population'', field (nullable_js JNum) total_population_schema),
        (''image'', field (nullable_js JStr) (image_schema is_url)),
        (''description'', field (nullable_js JStr) description_schema)]"
  have p: "parse_fields ?shape input = ([], data)"
    using assms unfolding speciesSchema_def by (rule z_object_Inr)
  have "map fst data = map fst ?shape \<and> list_all (\<lambda>(k, v). v \<noteq> JUndefined) data"
  proof (rule parse_fields_defined [OF p])
    fix k sch v y assume "(k, sch) \<in> set ?shape" "sch v = Inr y"
    then show "y \<noteq> JUndefined"
      by (auto dest: field_defined [rotated] simp: nullable_js_defined)
  next
    fix k sch v iss assume "(k, sch) \<in> set ?shape" "sch v = Inl iss"
    then show "iss \<noteq> []"
      using field_issue [OF transform_issue [OF z_string_issue], of JStr "[z_trim, z_min_length 1]" trim]
        field_issue [OF transform_issue [OF nullable_issue [OF z_string_issue]], of "nullable_js JStr" "[]" blank_to_null]
        field_issue [OF z_enum_issue, of JStr kingdoms]
        field_issue [OF nullable_issue [OF z_number_issue], of "nullable_js JNum" "[z_int, z_positive, z_min 1]"]
        field_issue [OF transform_issue [OF nullable_issue [OF z_string_issue]], of "nullable_js JStr" "[z_url is_url]" blank_to_null]
      by (auto simp: scientific_name_schema_def common_name_schema_def kingdom_schema_def
          total_population_schema_def image_schema_def description_schema_def)
  qed
  then show ?thesis by simp
qed

text \<open>The schema on two concrete form stores: the record's own values, and the same with a
  common name of one space.\<close>

lemma example_parses:
  "speciesSchema url_has_scheme (defaultValues example_species)
    = Inr [(''scientific_name'', JStr (js ''Panthera leo'')),
           (''common_name'', JStr (js ''Lion'')),
           (''kingdom'', JStr (js ''Animalia'')),
           (''total_population'', JNum (Fin 20000)),
           (''image'', JNull),
           (''description'', JStr (js ''A big cat.''))]"
  by code_simp

lemma example_blank_common_name_parses:
  "speciesSchema url_has_scheme
      (set_prop ''common_name'' (JStr [0x20]) (defaultValues example_species))
    = Inr [(''scientific_name'', JStr (js ''Panthera leo'')),
           (''common_name'', JNull),
           (''kingdom'', JStr (js ''Animalia'')),
           (''total_population'', JNum (Fin 20000)),
           (''image'', JNull),
           (''description'', JStr (js ''A big cat.''))]"
  by code_simp

section \<open>The submission handler's outcomes\<close>

text \<open>
  Claim C1. When the store answers the update request with no error, the handler closes
  the dialog, refreshes the view exactly once and raises the success toast titled
  "Species updated!". When the store answers with an error, the state is untouched, no
  refresh happens and no toast carries that title.
\<close>

theorem onSubmit_success_effects:
  "(supabase (update_request_of species input) = None \<longrightarrow>
      fst (onSubmit supabase species input st) = st\<lparr>dialogOpen := False\<rparr>
    \<and> refreshes (snd (onSubmit supabase species input st)) = 1
    \<and> toasts (snd (onSubmit supabase species input st)) =
        [(js ''Species updated!'', js ''Changes saved successfully.'', None)])
   \<and> (supabase (update_request_of species input) \<noteq> None \<longrightarrow>
      fst (onSubmit supabase species input st) = st
    \<and> refreshes (snd (onSubmit supabase species input st)) = 0
    \<and> list_all (\<lambda>t. fst t \<noteq> js ''Species updated!'')
        (toasts (snd (onSubmit supabase species input st))))"
  by (auto simp: onSubmit_def Let_def refreshes_def js_def)

theorem onSubmit_success_effects_witness:
  "fst (onSubmit store_accepts example_species (defaultValues example_species) ((mount example_species)\<lparr>dialogOpen := True, isEditing := True\<rparr>))
     = (mount example_species)\<lparr>dialogOpen := False, isEditing := True\<rparr>
   \<and> refreshes (snd (onSubmit store_accepts example_species (defaultValues example_species) ((mount example_species)\<lparr>dialogOpen := True, isEditing := True\<rparr>))) = 1
   \<and> toasts (snd (onSubmit store_accepts example_species (defaultValues example_species) ((mount example_species)\<lparr>dialogOpen := True, isEditing := True\<rparr>)))
     = [(js ''Species updated!'', js ''Changes saved successfully.'', None)]
   \<and> fst (onSubmit store_rejects example_species (defaultValues example_species) ((mount example_species)\<lparr>dialogOpen := True, isEditing := True\<rparr>)) = (mount example_species)\<lparr>dialogOpen := True, isEditing := True\<rparr>
   \<and> refreshes (snd (onSubmit store_rejects example_species (defaultValues example_species) ((mount example_species)\<lparr>dialogOpen := True, isEditing := True\<rparr>))) = 0"
  using onSubmit_success_effects [of store_accepts example_species "defaultValues example_species" "(mount example_species)\<lparr>dialogOpen := True, isEditing := True\<rparr>"]
    onSubmit_success_effects [of store_rejects example_species "defaultValues example_species" "(mount example_species)\<lparr>dialogOpen := True, isEditing := True\<rparr>"]
  by (simp add: store_accepts_def store_rejects_def)

text \<open>
  Claim C2. When the store answers the update request with an error, the handler leaves
  the local state as it was (the dialog flag, the edit flag and the form store), triggers
  no refresh, raises exactly one toast, of the destructive variant and with the error's
  message as its description, and has sent the update request once.
\<close>

theorem onSubmit_failure_effects:
  assumes "supabase (update_request_of species input) = Some error"
  shows "fst (onSubmit supabase species input st) = st
    \<and> refreshes (snd (onSubmit supabase species input st)) = 0
    \<and> toasts (snd (onSubmit supabase species input st)) =
        [(js ''Something went wrong.'', message error, Some (js ''destructive''))]
    \<and> length (updates (snd (onSubmit supabase species input st))) = 1"
  using assms by (simp add: onSubmit_def Let_def refreshes_def)

theorem onSubmit_failure_effects_witness:
  "fst (onSubmit store_rejects example_species (defaultValues example_species) ((mount example_species)\<lparr>dialogOpen := True, isEditing := True\<rparr>)) = (mount example_species)\<lparr>dialogOpen := True, isEditing := True\<rparr>
   \<and> dialogOpen (fst (onSubmit store_rejects example_species (defaultValues example_species) ((mount example_species)\<lparr>dialogOpen := True, isEditing := True\<rparr>)))
   \<and> isEditing (fst (onSubmit store_rejects example_species (defaultValues example_species) ((mount example_species)\<lparr>dialogOpen := True, isEditing := True\<rparr>)))
   \<and> toasts (snd (onSubmit store_rejects example_species (defaultValues example_species) ((mount example_species)\<lparr>dialogOpen := True, isEditing := True\<rparr>)))
     = [(js ''Something went wrong.'', js ''duplicate key'', Some (js ''destructive''))]"
  using onSubmit_failure_effects [of store_rejects example_species "defaultValues example_species"
      "PostgrestError (js ''duplicate key'')" "(mount example_species)\<lparr>dialogOpen := True, isEditing := True\<rparr>"]
  by (simp add: store_rejects_def)

text \<open>
  Claim C5. Every call of the handler sends exactly one update request: to the table
  \<open>species\<close>, filtered by equality of the column \<open>id\<close> with the record's identifier, and
  with exactly the six editable fields, each holding the value of the handler's input;
  neither \<open>id\<close> nor \<open>author\<close> is among the keys. On a submission that passed validation
  the six values are all defined, so all six are sent.
\<close>

theorem onSubmit_update_request:
  "updates (snd (onSubmit supabase species input st)) = [update_request_of species input]
   \<and> from_table (update_request_of species input) = ''species''
   \<and> eq_column (update_request_of species input) = ''id''
   \<and> eq_value (update_request_of species input) = id' species
   \<and> map fst (update_values (update_request_of species input)) =
       [''scientific_name'', ''common_name'', ''kingdom'', ''total_population'', ''description'', ''image'']
   \<and> list_all (\<lambda>(k, v). v = get_prop input k) (update_values (update_request_of species input))
   \<and> \<not> List.member (map fst (update_values (update_request_of species input))) ''id''
   \<and> \<not> List.member (map fst (update_values (update_request_of species input))) ''author''
   \<and> (speciesSchema is_url (form_values st) = Inr data \<longrightarrow>
        updates (snd (handleSubmit is_url supabase species st)) = [update_request_of species data]
      \<and> list_all (\<lambda>(k, v). v \<noteq> JUndefined) (update_values (update_request_of species data)))"
proof -
  have "list_all (\<lambda>(k, v). v \<noteq> JUndefined) (update_values (update_request_of species data))"
    if "speciesSchema is_url (form_values st) = Inr data"
    using speciesSchema_output [OF that]
    by (simp add: update_request_of_def get_prop_defined)
  then show ?thesis
    by (auto simp: onSubmit_def handleSubmit_def Let_def update_request_of_def split: option.splits)
qed

theorem onSubmit_update_request_witness:
  "updates (snd (onSubmit store_rejects example_species (defaultValues example_species) ((mount example_species)\<lparr>dialogOpen := True, isEditing := True\<rparr>)))
     = [update_request_of example_species (defaultValues example_species)]
   \<and> eq_value (update_request_of example_species (defaultValues example_species)) = 7
   \<and> length (updates (snd (handleSubmit url_has_scheme store_accepts example_species ((mount example_species)\<lparr>dialogOpen := True, isEditing := True\<rparr>)))) = 1"
  using onSubmit_update_request [of store_rejects example_species "defaultValues example_species" "(mount example_species)\<lparr>dialogOpen := True, isEditing := True\<rparr>"
      url_has_scheme]
    onSubmit_update_request [of store_accepts example_species "defaultValues example_species" "(mount example_species)\<lparr>dialogOpen := True, isEditing := True\<rparr>"
      url_has_scheme
      "[(''scientific_name'', JStr (js ''Panthera leo'')),
        (''common_name'', JStr (js ''Lion'')),
        (''kingdom'', JStr (js ''Animalia'')),
        (''total_population'', JNum (Fin 20000)),
        (''image'', JNull),
        (''description'', JStr (js ''A big cat.''))]"]
    example_parses
  by (simp add: mount_def example_species_def)

section \<open>The edit button and the summary\<close>

text \<open>
  Claim C9. The edit button is on screen exactly when the dialog is open, the component
  is not in edit mode and the record's author is the session's identifier; with any other
  author the button is absent.
\<close>

theorem edit_control_iff:
  "edit_control species sessionId st \<longleftrightarrow>
     dialogOpen st \<and> \<not> isEditing st \<and> author species = sessionId"
  by (auto simp: edit_control_def render_def dialog_def)

theorem edit_control_iff_witness:
  "edit_control example_species (js ''user-1'') ((mount example_species)\<lparr>dialogOpen := True\<rparr>)
   \<and> \<not> edit_control example_species (js ''user-2'') ((mount example_species)\<lparr>dialogOpen := True\<rparr>)"
  using edit_control_iff [of example_species "js ''user-1''" "(mount example_species)\<lparr>dialogOpen := True\<rparr>"]
    edit_control_iff [of example_species "js ''user-2''" "(mount example_species)\<lparr>dialogOpen := True\<rparr>"]
  by (simp add: example_species_def mount_def js_def)

text \<open>
  Claim C10, as amended. For a record whose description is neither null nor the empty
  string, the card's summary is the first 150 code units of the description, trimmed,
  followed by "..."; for a null or an empty description the summary is the empty string.
\<close>

theorem summary_text_cases:
  "(description species = Some d \<and> d \<noteq> [] \<longrightarrow>
      summary (render species sessionId st) = trim (take 150 d) @ js ''...'')
   \<and> (description species = None \<or> description species = Some [] \<longrightarrow>
      summary (render species sessionId st) = [])"
  by (auto simp: render_def summary_text_def truthy_def slice0_def)

theorem summary_text_cases_witness:
  "summary (render example_species (js ''user-2'') (mount example_species)) = js ''A big cat....''
   \<and> summary (render (example_species\<lparr>description := None\<rparr>) (js ''user-2'') (mount example_species)) = []"
  using summary_text_cases [of example_species "js ''A big cat.''" "js ''user-2''" "mount example_species"]
    summary_text_cases [of "example_species\<lparr>description := None\<rparr>" "[]" "js ''user-2''" "mount example_species"]
  by (simp add: example_species_def js_def trim_def is_ws_def)

text \<open>
  Claim C10 as stated fails for the empty description, which is not null: the summary is
  empty there, not "...".
\<close>

theorem summary_empty_description_counterexample:
  "description (example_species\<lparr>description := Some []\<rparr>) = Some []
   \<and> summary (render (example_species\<lparr>description := Some []\<rparr>) (js ''user-1'') (mount example_species))
       \<noteq> trim (take 150 []) @ js ''...''"
  by (simp add: render_def summary_text_def truthy_def slice0_def js_def)

section \<open>Validation of the fields\<close>

text \<open>
  Claim C6. When the scientific name in the form store is a string that trims to the
  empty string (it is empty or holds white space only), the field's schema raises an
  issue, the object schema fails whatever the other fields hold, and submitting changes
  nothing and reaches no collaborator: the update handler is not called.
\<close>

theorem blank_scientific_name_blocks_submission:
  assumes "get_prop (form_values st) ''scientific_name'' = JStr s" and "trim s = []"
  shows "scientific_name_schema (JStr s) = Inl [Too_short]
    \<and> isl (speciesSchema is_url (form_values st))
    \<and> handleSubmit is_url supabase species st = (st, [])"
proof -
  have b: "list_all is_ws s"
    using assms(2) by (simp add: trim_blank_iff)
  have f: "field JStr scientific_name_schema (get_prop (form_values st) ''scientific_name'')
            = Inl [Too_short]"
    using assms(1) b by (simp add: field_def scientific_name_blank)
  have "isl (speciesSchema is_url (form_values st))"
    unfolding speciesSchema_def
    using z_object_issue [of "''scientific_name''" "field JStr scientific_name_schema" _
        "form_values st", OF _ f]
    by simp
  then show ?thesis
    using b by (auto simp: handleSubmit_def scientific_name_blank split: sum.splits)
qed

theorem blank_scientific_name_blocks_submission_witness:
  "handleSubmit url_has_scheme store_accepts example_species
     \<lparr>dialogOpen = True, isEditing = True,
      form_values = set_prop ''scientific_name'' (JStr [0x20, 0x09]) (defaultValues example_species)\<rparr>
   = (\<lparr>dialogOpen = True, isEditing = True,
      form_values = set_prop ''scientific_name'' (JStr [0x20, 0x09]) (defaultValues example_species)\<rparr>, [])"
  using blank_scientific_name_blocks_submission [of
      "\<lparr>dialogOpen = True, isEditing = True,
        form_values = set_prop ''scientific_name'' (JStr [0x20, 0x09]) (defaultValues example_species)\<rparr>"
      "[0x20, 0x09]" url_has_scheme store_accepts example_species]
  by (simp add: defaultValues_def get_prop_def trim_def is_ws_def)

text \<open>
  Claim C8. For the common name and for the description, a string that is empty or holds
  white space only is validated to null and every other string to its trimmed text (null
  itself stays null); and every update request a submission sends carries that normalized
  value for the field.
\<close>

theorem blank_text_normalized:
  "common_name_schema (JStr s) = Inr (if list_all is_ws s then None else Some (trim s))
   \<and> description_schema (JStr s) = Inr (if list_all is_ws s then None else Some (trim s))
   \<and> common_name_schema JNull = Inr None
   \<and> description_schema JNull = Inr None
   \<and> (get_prop (form_values st) ''common_name'' = JStr s \<longrightarrow>
        list_all (\<lambda>r. get_prop (update_values r) ''common_name''
                      = (if list_all is_ws s then JNull else JStr (trim s)))
          (updates (snd (handleSubmit is_url supabase species st))))
   \<and> (get_prop (form_values st) ''description'' = JStr s \<longrightarrow>
        list_all (\<lambda>r. get_prop (update_values r) ''description''
                      = (if list_all is_ws s then JNull else JStr (trim s)))
          (updates (snd (handleSubmit is_url supabase species st))))"
proof -
  let ?n = "if list_all is_ws s then JNull else JStr (trim s)"
  have c: "common_name_schema (JStr s) = Inr (if list_all is_ws s then None else Some (trim s))"
    by (simp add: common_name_schema_def optional_text_string)
  have d: "description_schema (JStr s) = Inr (if list_all is_ws s then None else Some (trim s))"
    by (simp add: description_schema_def optional_text_string)
  have n: "common_name_schema JNull = Inr None" "description_schema JNull = Inr None"
    by (simp_all add: common_name_schema_def description_schema_def optional_text_null)
  have u: "updates (snd (handleSubmit is_url supabase species st)) =
      (case speciesSchema is_url (form_values st) of
         Inl issues \<Rightarrow> [] | Inr data \<Rightarrow> [update_request_of species data])"
    by (simp add: handleSubmit_def onSubmit_def Let_def split: sum.splits option.splits)
  have cd: "get_prop data ''common_name'' = ?n"
    if p: "speciesSchema is_url (form_values st) = Inr data"
      and g: "get_prop (form_values st) ''common_name'' = JStr s" for data
  proof -
    have "field (nullable_js JStr) common_name_schema (get_prop (form_values st) ''common_name'')
            = Inr ?n"
      using g c by (simp add: field_def nullable_js_def)
    from z_object_value [of _ "form_values st" data "''common_name''"
        "field (nullable_js JStr) common_name_schema",
        OF p [unfolded speciesSchema_def] _ _ this]
    show ?thesis by simp
  qed
  have dd: "get_prop data ''description'' = ?n"
    if p: "speciesSchema is_url (form_values st) = Inr data"
      and g: "get_prop (form_values st) ''description'' = JStr s" for data
  proof -
    have "field (nullable_js JStr) description_schema (get_prop (form_values st) ''description'')
            = Inr ?n"
      using g d by (simp add: field_def nullable_js_def)
    from z_object_value [of _ "form_values st" data "''description''"
        "field (nullable_js JStr) description_schema",
        OF p [unfolded speciesSchema_def] _ _ this]
    show ?thesis by simp
  qed
  have "list_all (\<lambda>r. get_prop (update_values r) ''common_name'' = ?n)
          (updates (snd (handleSubmit is_url supabase species st)))"
    if "get_prop (form_values st) ''common_name'' = JStr s"
    using cd [OF _ that] unfolding u
    by (cases "speciesSchema is_url (form_values st)")
      (simp_all add: update_values_prop registered_def)
  moreover have "list_all (\<lambda>r. get_prop (update_values r) ''description'' = ?n)
          (updates (snd (handleSubmit is_url supabase species st)))"
    if "get_prop (form_values st) ''description'' = JStr s"
    using dd [OF _ that] unfolding u
    by (cases "speciesSchema is_url (form_values st)")
      (simp_all add: update_values_prop registered_def)
  ultimately show ?thesis using c d n by blast
qed

theorem blank_text_normalized_witness:
  "common_name_schema (JStr [0x20]) = Inr None
   \<and> description_schema (JStr [0x20]) = Inr None
   \<and> common_name_schema (JStr [0x20, 0x41, 0x20]) = Inr (Some [0x41])
   \<and> updates (snd (handleSubmit url_has_scheme store_accepts example_species
        \<lparr>dialogOpen = True, isEditing = True,
         form_values = set_prop ''common_name'' (JStr [0x20]) (defaultValues example_species)\<rparr>))
      = [update_request_of example_species
          [(''scientific_name'', JStr (js ''Panthera leo'')),
           (''common_name'', JNull),
           (''kingdom'', JStr (js ''Animalia'')),
           (''total_population'', JNum (Fin 20000)),
           (''image'', JNull),
           (''description'', JStr (js ''A big cat.''))]]
   \<and> get_prop (update_values (update_request_of example_species
          [(''scientific_name'', JStr (js ''Panthera leo'')),
           (''common_name'', JNull),
           (''kingdom'', JStr (js ''Animalia'')),
           (''total_population'', JNum (Fin 20000)),
           (''image'', JNull),
           (''description'', JStr (js ''A big cat.''))])) ''common_name'' = JNull"
  using blank_text_normalized [of "[0x20]"
      "\<lparr>dialogOpen = True, isEditing = True,
        form_values = set_prop ''common_name'' (JStr [0x20]) (defaultValues example_species)\<rparr>"
      url_has_scheme store_accepts example_species]
    blank_text_normalized [of "[0x20, 0x41, 0x20]"
      "\<lparr>dialogOpen = True, isEditing = True,
        form_values = set_prop ''common_name'' (JStr [0x20]) (defaultValues example_species)\<rparr>"
      url_has_scheme store_accepts example_species]
    example_blank_common_name_parses
  by (simp add: is_ws_def trim_def get_prop_def defaultValues_def handleSubmit_def onSubmit_def
      store_accepts_def update_request_of_def)

text \<open>
  Claim C4, at the input where the code departs from it. The \<open>URL\<close> constructor rejects
  the empty string. With the image input emptied, the form store holds the empty string
  for the image; the url check runs before the transform that would turn it into null, so
  the field raises an issue, the object schema fails and submitting does nothing.
\<close>

theorem image_blank_rejected:
  assumes "\<not> is_url []" and "get_prop (form_values st) ''image'' = JStr []"
  shows "image_schema is_url (JStr []) = Inl [Invalid_url]
    \<and> isl (speciesSchema is_url (form_values st))
    \<and> handleSubmit is_url supabase species st = (st, [])"
proof -
  have i: "image_schema is_url (JStr []) = Inl [Invalid_url]"
    using assms(1) by (simp add: image_schema_string)
  then have f: "field (nullable_js JStr) (image_schema is_url) (get_prop (form_values st) ''image'')
                 = Inl [Invalid_url]"
    using assms(2) by (simp add: field_def)
  have "isl (speciesSchema is_url (form_values st))"
    unfolding speciesSchema_def
    using z_object_issue [of "''image''" "field (nullable_js JStr) (image_schema is_url)" _
        "form_values st", OF _ f]
    by simp
  then show ?thesis
    using i by (auto simp: handleSubmit_def split: sum.splits)
qed

theorem image_blank_rejected_witness:
  "image_schema url_has_scheme (JStr []) = Inl [Invalid_url]
   \<and> handleSubmit url_has_scheme store_accepts example_species
     \<lparr>dialogOpen = True, isEditing = True,
      form_values = set_prop ''image'' (JStr []) (defaultValues example_species)\<rparr>
   = (\<lparr>dialogOpen = True, isEditing = True,
      form_values = set_prop ''image'' (JStr []) (defaultValues example_species)\<rparr>, [])"
  using image_blank_rejected [of url_has_scheme
      "\<lparr>dialogOpen = True, isEditing = True,
        form_values = set_prop ''image'' (JStr []) (defaultValues example_species)\<rparr>"
      store_accepts example_species]
  by (simp add: defaultValues_def get_prop_def url_has_scheme_def)

section \<open>The population input\<close>

lemma get_prop_set_prop_other: "k' \<noteq> k \<Longrightarrow> get_prop (set_prop k v obj) k' = get_prop obj k'"
  by (induction obj) (auto simp: get_prop_def)

text \<open>Binding the inputs rewrites the store field by field.\<close>

lemma get_prop_register_inputs_other:
  "\<not> List.member register_names k \<Longrightarrow> get_prop (register_inputs stn values) k = get_prop values k"
  by (auto simp: register_inputs_def register_names_def get_prop_set_prop_other)

lemma get_prop_register_inputs:
  "List.member register_names k \<Longrightarrow>
   get_prop (register_inputs stn values) k = mounted_value stn k (get_prop values k)"
  by (auto simp: register_inputs_def register_names_def get_prop_set_prop_other get_prop_set_prop)

lemma register_inputs_defaultValues:
  "register_inputs stn (defaultValues species)
     = set_prop ''total_population'' (setValueAs stn (nullable_js JNum (total_population species)))
         (defaultValues species)"
  by (cases "common_name species"; cases "image' species"; cases "description species";
      cases "total_population species")
    (simp_all add: register_inputs_def register_names_def defaultValues_def mounted_value_def
      get_prop_def nullable_js_def)

text \<open>The population field's schema raises an issue when it fails and returns its input
  when it passes; a failing population blocks the submission, and every update request
  sent carries the stored population as it is.\<close>

lemma total_population_issue:
  "total_population_schema x = Inl iss \<Longrightarrow> iss \<noteq> []"
  using nullable_issue [OF z_number_issue, of "[z_int, z_positive, z_min 1]"]
  by (auto simp: total_population_schema_def)

lemma total_population_kept:
  "total_population_schema x = Inr y \<Longrightarrow> nullable_js JNum y = x"
  by (cases x)
    (auto simp: total_population_schema_def nullable_def nullable_js_def z_number_def checked_def
      z_int_def z_positive_def z_min_def split: jsnum.splits if_splits prod.splits)

lemma total_population_blocks:
  assumes "isl (total_population_schema (get_prop (form_values st) ''total_population''))"
  shows "handleSubmit is_url supabase species st = (st, [])"
proof -
  obtain iss where i: "total_population_schema (get_prop (form_values st) ''total_population'') = Inl iss"
    using assms by (cases "total_population_schema (get_prop (form_values st) ''total_population'')") auto
  then obtain j jss where "iss = j # jss"
    using total_population_issue [OF i] by (cases iss) auto
  with i have f: "field (nullable_js JNum) total_population_schema
      (get_prop (form_values st) ''total_population'') = Inl (j # jss)"
    by (simp add: field_def)
  have "isl (speciesSchema is_url (form_values st))"
    unfolding speciesSchema_def
    using z_object_issue [of "''total_population''" "field (nullable_js JNum) total_population_schema" _
        "form_values st", OF _ f]
    by simp
  then show ?thesis
    by (auto simp: handleSubmit_def split: sum.splits)
qed

lemma total_population_sent:
  "list_all (\<lambda>r. get_prop (update_values r) ''total_population''
                 = get_prop (form_values st) ''total_population'')
     (updates (snd (handleSubmit is_url supabase species st)))"
proof (cases "speciesSchema is_url (form_values st)")
  case (Inl issues)
  then show ?thesis by (simp add: handleSubmit_def)
next
  case (Inr data)
  have "\<exists>y. field (nullable_js JNum) total_population_schema
      (get_prop (form_values st) ''total_population'') = Inr y"
  proof (rule ccontr)
    assume "\<not> ?thesis"
    then have "isl (total_population_schema (get_prop (form_values st) ''total_population''))"
      by (cases "total_population_schema (get_prop (form_values st) ''total_population'')")
        (auto simp: field_def)
    from total_population_blocks [OF this, of is_url supabase species] Inr
    show False by (simp add: handleSubmit_def onSubmit_def Let_def split: option.splits)
  qed
  then obtain y where y: "field (nullable_js JNum) total_population_schema
      (get_prop (form_values st) ''total_population'') = Inr y" ..
  then have k: "y = get_prop (form_values st) ''total_population''"
    by (cases "total_population_schema (get_prop (form_values st) ''total_population'')")
      (auto simp: field_def dest: total_population_kept)
  from z_object_value [of _ "form_values st" data "''total_population''"
      "field (nullable_js JNum) total_population_schema",
      OF Inr [unfolded speciesSchema_def] _ _ y]
  have "get_prop data ''total_population'' = y" by simp
  with k Inr show ?thesis
    by (simp add: handleSubmit_def onSubmit_def Let_def update_values_prop registered_def
        split: option.splits)
qed

text \<open>The sample conversion and the schema on concrete inputs.\<close>

lemma decimal_12: "decimal_to_number (js ''12'') = Fin 12"
  by code_simp

lemma decimal_0: "decimal_to_number (js ''0'') = Fin 0"
  by code_simp

lemma example_population_12_parses:
  "speciesSchema url_has_scheme
      (set_prop ''total_population'' (JNum (Fin 12)) (defaultValues example_species))
    = Inr [(''scientific_name'', JStr (js ''Panthera leo'')),
           (''common_name'', JStr (js ''Lion'')),
           (''kingdom'', JStr (js ''Animalia'')),
           (''total_population'', JNum (Fin 12)),
           (''image'', JNull),
           (''description'', JStr (js ''A big cat.''))]"
  by code_simp

text \<open>
  Claim C7. The population input's \<open>setValueAs\<close> turns the empty string into null, and null
  passes validation; every other value it turns into \<open>Number(value)\<close>. A number that is at
  most zero or not an integer fails validation, as do NaN and the infinities; an integer of
  at least one passes and is returned unchanged. This holds of the schema alone and of the
  schema applied to what \<open>setValueAs\<close> returns, which is what the input's change handler
  stores: a stored value that fails blocks the submission, and every update request sent
  carries the stored value unchanged. (\<open>null\<close> given to \<open>setValueAs\<close> is not the empty string:
  it becomes 0 and fails.)
\<close>

theorem total_population_validation:
  "setValueAs stn (JStr []) = JNull
   \<and> total_population_schema JNull = Inr None
   \<and> (q \<in> \<int> \<and> 1 \<le> q \<longrightarrow> total_population_schema (JNum (Fin q)) = Inr (Some (Fin q)))
   \<and> (q \<le> 0 \<or> q \<notin> \<int> \<longrightarrow> isl (total_population_schema (JNum (Fin q))))
   \<and> isl (total_population_schema (JNum NaN))
   \<and> isl (total_population_schema (JNum PosInf))
   \<and> isl (total_population_schema (JNum NegInf))
   \<and> (v \<noteq> JStr [] \<longrightarrow> setValueAs stn v = JNum (Number stn v))
   \<and> total_population_schema (setValueAs stn (JStr [])) = Inr None
   \<and> (v \<noteq> JStr [] \<and> Number stn v = Fin q \<and> q \<in> \<int> \<and> 1 \<le> q \<longrightarrow>
        total_population_schema (setValueAs stn v) = Inr (Some (Fin q)))
   \<and> (v \<noteq> JStr [] \<and> Number stn v = Fin q \<and> (q \<le> 0 \<or> q \<notin> \<int>) \<longrightarrow>
        isl (total_population_schema (setValueAs stn v)))
   \<and> (v \<noteq> JStr [] \<and> (Number stn v = NaN \<or> Number stn v = PosInf \<or> Number stn v = NegInf) \<longrightarrow>
        isl (total_population_schema (setValueAs stn v)))
   \<and> setValueAs stn JNull = JNum (Fin 0)
   \<and> isl (total_population_schema (setValueAs stn JNull))
   \<and> changed_value stn ''total_population'' s = setValueAs stn (JStr s)
   \<and> (form_rendered st \<longrightarrow>
        get_prop (form_values (fst (step is_url stn supabase species sessionId st
                    (Change ''total_population'' s)))) ''total_population''
          = setValueAs stn (JStr s))
   \<and> (get_prop (form_values st) ''total_population'' = setValueAs stn v \<longrightarrow>
        (isl (total_population_schema (setValueAs stn v)) \<longrightarrow>
           handleSubmit is_url supabase species st = (st, []))
      \<and> list_all (\<lambda>r. get_prop (update_values r) ''total_population'' = setValueAs stn v)
           (updates (snd (handleSubmit is_url supabase species st))))"
proof -
  have a: "setValueAs stn (JStr []) = JNull" "total_population_schema JNull = Inr None"
    "v \<noteq> JStr [] \<longrightarrow> setValueAs stn v = JNum (Number stn v)"
    "setValueAs stn JNull = JNum (Fin 0)"
    by (simp_all add: setValueAs_def total_population_schema_def nullable_def Number_def)
  have b: "q \<in> \<int> \<and> 1 \<le> q \<longrightarrow> total_population_schema (JNum (Fin q)) = Inr (Some (Fin q))"
    "q \<le> 0 \<or> q \<notin> \<int> \<longrightarrow> isl (total_population_schema (JNum (Fin q)))"
    "isl (total_population_schema (JNum NaN))"
    "isl (total_population_schema (JNum PosInf))"
    "isl (total_population_schema (JNum NegInf))"
    by (auto simp: total_population_schema_def nullable_def z_number_def checked_def
        z_int_def z_positive_def z_min_def)
  have c: "changed_value stn ''total_population'' s = setValueAs stn (JStr s)"
    by (simp add: changed_value_def)
  have d: "form_rendered st \<longrightarrow>
        get_prop (form_values (fst (step is_url stn supabase species sessionId st
                    (Change ''total_population'' s)))) ''total_population''
          = setValueAs stn (JStr s)"
    by (simp add: registered_def changed_value_def get_prop_set_prop)
  have e: "get_prop (form_values st) ''total_population'' = setValueAs stn v \<longrightarrow>
        (isl (total_population_schema (setValueAs stn v)) \<longrightarrow>
           handleSubmit is_url supabase species st = (st, []))
      \<and> list_all (\<lambda>r. get_prop (update_values r) ''total_population'' = setValueAs stn v)
           (updates (snd (handleSubmit is_url supabase species st)))"
    using total_population_blocks [of st is_url supabase species]
      total_population_sent [of st is_url supabase species]
    by auto
  have z: "isl (total_population_schema (setValueAs stn JNull))"
    using a(4) b(2) [of ] by (auto simp: total_population_schema_def nullable_def z_number_def checked_def
        z_int_def z_positive_def z_min_def)
  show ?thesis
    using a b c d e z by (auto simp del: step.simps)
qed

theorem total_population_validation_witness:
  "setValueAs decimal_to_number (JStr []) = JNull
   \<and> total_population_schema (setValueAs decimal_to_number (JStr [])) = Inr None
   \<and> total_population_schema (setValueAs decimal_to_number (JStr (js ''12''))) = Inr (Some (Fin 12))
   \<and> isl (total_population_schema (setValueAs decimal_to_number (JStr (js ''0''))))
   \<and> isl (total_population_schema (JNum (Fin (5 / 2))))
   \<and> setValueAs decimal_to_number JNull = JNum (Fin 0)
   \<and> handleSubmit url_has_scheme store_accepts example_species
        \<lparr>dialogOpen = True, isEditing = True,
         form_values = set_prop ''total_population'' (JNum (Fin 0)) (defaultValues example_species)\<rparr>
      = (\<lparr>dialogOpen = True, isEditing = True,
         form_values = set_prop ''total_population'' (JNum (Fin 0)) (defaultValues example_species)\<rparr>, [])
   \<and> updates (snd (handleSubmit url_has_scheme store_accepts example_species
        \<lparr>dialogOpen = True, isEditing = True,
         form_values = set_prop ''total_population'' (JNum (Fin 12)) (defaultValues example_species)\<rparr>))
      = [update_request_of example_species
          [(''scientific_name'', JStr (js ''Panthera leo'')),
           (''common_name'', JStr (js ''Lion'')),
           (''kingdom'', JStr (js ''Animalia'')),
           (''total_population'', JNum (Fin 12)),
           (''image'', JNull),
           (''description'', JStr (js ''A big cat.''))]]"
proof -
  have n: "(5 / 2 :: rat) \<notin> \<int>"
    by (simp add: of_int_floor_cancel [symmetric])
  have v12: "JStr (js ''12'') \<noteq> JStr []" and v0: "JStr (js ''0'') \<noteq> JStr []"
    by (simp_all add: js_def)
  have n12: "Number decimal_to_number (JStr (js ''12'')) = Fin 12"
    and n0: "Number decimal_to_number (JStr (js ''0'')) = Fin 0"
    by (simp_all add: Number_def decimal_12 decimal_0)
  have s12: "setValueAs decimal_to_number (JStr (js ''12'')) = JNum (Fin 12)"
    and s0: "setValueAs decimal_to_number (JStr (js ''0'')) = JNum (Fin 0)"
    using v12 v0 n12 n0 by (simp_all add: setValueAs_def)
  have g12: "get_prop (set_prop ''total_population'' (JNum (Fin 12)) (defaultValues example_species))
      ''total_population'' = JNum (Fin 12)"
    and g0: "get_prop (set_prop ''total_population'' (JNum (Fin 0)) (defaultValues example_species))
      ''total_population'' = JNum (Fin 0)"
    by (simp_all add: get_prop_set_prop)
  have u: "updates (snd (handleSubmit url_has_scheme store_accepts example_species
        \<lparr>dialogOpen = True, isEditing = True,
         form_values = set_prop ''total_population'' (JNum (Fin 12)) (defaultValues example_species)\<rparr>))
      = [update_request_of example_species
          [(''scientific_name'', JStr (js ''Panthera leo'')),
           (''common_name'', JStr (js ''Lion'')),
           (''kingdom'', JStr (js ''Animalia'')),
           (''total_population'', JNum (Fin 12)),
           (''image'', JNull),
           (''description'', JStr (js ''A big cat.''))]]"
    by (simp add: handleSubmit_def example_population_12_parses onSubmit_def store_accepts_def)
  show ?thesis
    using total_population_validation [of decimal_to_number 12 "JStr (js ''12'')" "js ''12''"
        "\<lparr>dialogOpen = True, isEditing = True,
          form_values = set_prop ''total_population'' (JNum (Fin 12)) (defaultValues example_species)\<rparr>"
        url_has_scheme store_accepts example_species "js ''user-1''"]
      total_population_validation [of decimal_to_number 0 "JStr (js ''0'')" "js ''0''"
        "\<lparr>dialogOpen = True, isEditing = True,
          form_values = set_prop ''total_population'' (JNum (Fin 0)) (defaultValues example_species)\<rparr>"
        url_has_scheme store_accepts example_species "js ''user-1''"]
      total_population_validation [of decimal_to_number "5 / 2" "JStr (js ''0'')" "js ''0''"
        "\<lparr>dialogOpen = True, isEditing = True,
          form_values = set_prop ''total_population'' (JNum (Fin 0)) (defaultValues example_species)\<rparr>"
        url_has_scheme store_accepts example_species "js ''user-1''"]
      n v12 v0 n12 n0 s12 s0 g12 g0 u
    by (simp del: step.simps)
qed

section \<open>The form store across closing and reopening the dialog\<close>

text \<open>
  Claim C3, as amended. Let the session be the record's author. After opening the dialog,
  entering edit mode, changing a field, dismissing the dialog and opening it again, the
  dialog is open in read-only mode and shows what it showed when first opened, which is
  taken from the record. The form store is not initialized again: dismissing and
  reopening leave it as the change left it (the record's values as bound to the inputs
  when the form was first shown, with the changed field), it still holds the changed
  value, and on entering edit mode once more the form is shown with that store, bound to
  the inputs again; a changed field other than the population still holds the text that
  was entered.
\<close>

theorem reopen_keeps_form_store:
  assumes "author species = sessionId" and "List.member registered k"
  shows "dialogOpen (fst (run is_url stn supabase species sessionId (mount species)
            [Learn_More, Edit, Change k s, Open_change False, Learn_More]))
    \<and> \<not> isEditing (fst (run is_url stn supabase species sessionId (mount species)
            [Learn_More, Edit, Change k s, Open_change False, Learn_More]))
    \<and> open_dialog (render species sessionId
          (fst (run is_url stn supabase species sessionId (mount species)
            [Learn_More, Edit, Change k s, Open_change False, Learn_More])))
        = open_dialog (render species sessionId
          (fst (run is_url stn supabase species sessionId (mount species) [Learn_More])))
    \<and> body (dialog species sessionId
          (fst (run is_url stn supabase species sessionId (mount species) [Learn_More])))
        = Details (kingdom species) (total_population species)
    \<and> form_values (fst (run is_url stn supabase species sessionId (mount species)
            [Learn_More, Edit, Change k s, Open_change False, Learn_More]))
        = form_values (fst (run is_url stn supabase species sessionId (mount species)
            [Learn_More, Edit, Change k s]))
    \<and> form_values (fst (run is_url stn supabase species sessionId (mount species)
            [Learn_More, Edit, Change k s, Open_change False, Learn_More]))
        = set_prop k (changed_value stn k s) (register_inputs stn (defaultValues species))
    \<and> get_prop (form_values (fst (run is_url stn supabase species sessionId (mount species)
            [Learn_More, Edit, Change k s, Open_change False, Learn_More]))) k
        = changed_value stn k s
    \<and> body (dialog species sessionId
          (fst (run is_url stn supabase species sessionId (mount species)
            [Learn_More, Edit, Change k s, Open_change False, Learn_More, Edit])))
        = Form (form_inputs (register_inputs stn
            (set_prop k (changed_value stn k s) (register_inputs stn (defaultValues species)))))
    \<and> (k \<noteq> ''total_population'' \<longrightarrow>
        get_prop (form_values (fst (run is_url stn supabase species sessionId (mount species)
            [Learn_More, Edit, Change k s, Open_change False, Learn_More, Edit]))) k
        = JStr s)"
proof -
  have r: "k \<noteq> ''total_population'' \<Longrightarrow>
      get_prop (register_inputs stn (set_prop k (JStr s) obj)) k = JStr s" for obj
    by (cases "List.member register_names k")
      (simp_all add: get_prop_register_inputs get_prop_register_inputs_other get_prop_set_prop
        mounted_value_def)
  show ?thesis
    using assms r
    by (simp add: mount_def dialog_def render_def form_rendered_def show_form_def
        get_prop_set_prop changed_value_def)
qed

theorem reopen_keeps_form_store_witness:
  "form_values
     (fst (run url_has_scheme decimal_to_number store_accepts example_species (js ''user-1'')
         (mount example_species)
         [Learn_More, Edit, Change ''scientific_name'' (js ''X''), Open_change False, Learn_More]))
    = set_prop ''scientific_name'' (JStr (js ''X'')) (defaultValues example_species)
   \<and> get_prop (form_values
     (fst (run url_has_scheme decimal_to_number store_accepts example_species (js ''user-1'')
         (mount example_species)
         [Learn_More, Edit, Change ''scientific_name'' (js ''X''), Open_change False, Learn_More])))
       ''scientific_name'' = JStr (js ''X'')
   \<and> get_prop (form_values
     (fst (run url_has_scheme decimal_to_number store_accepts example_species (js ''user-1'')
         (mount example_species)
         [Learn_More, Edit, Change ''scientific_name'' (js ''X''), Open_change False, Learn_More, Edit])))
       ''scientific_name'' = JStr (js ''X'')"
proof -
  have d: "register_inputs decimal_to_number (defaultValues example_species)
      = defaultValues example_species"
    by (simp add: register_inputs_defaultValues)
      (simp add: example_species_def defaultValues_def setValueAs_def Number_def nullable_js_def)
  have a: "author example_species = js ''user-1''"
    by (simp add: example_species_def)
  have m: "List.member registered ''scientific_name''"
    by (simp add: registered_def)
  have c: "changed_value decimal_to_number ''scientific_name'' (js ''X'') = JStr (js ''X'')"
    by (simp add: changed_value_def)
  have n: "''scientific_name'' \<noteq> ''total_population''"
    by simp
  show ?thesis
    using reopen_keeps_form_store [OF a m, of url_has_scheme decimal_to_number store_accepts
        "js ''X''"] n
    unfolding c d by blast
qed

text \<open>
  Claim C3 as stated fails: after the same steps and entering edit mode again, the form
  does not show the record's values but the abandoned edit.
\<close>

theorem reopen_shows_record_counterexample:
  "body (dialog example_species (js ''user-1'')
      (fst (run url_has_scheme decimal_to_number store_accepts example_species (js ''user-1'')
         (mount example_species)
         [Learn_More, Edit, Change ''scientific_name'' (js ''X''), Open_change False, Learn_More, Edit])))
   \<noteq> Form (form_inputs (defaultValues example_species))"
proof -
  have x: "get_prop (form_values
     (fst (run url_has_scheme decimal_to_number store_accepts example_species (js ''user-1'')
         (mount example_species)
         [Learn_More, Edit, Change ''scientific_name'' (js ''X''), Open_change False, Learn_More, Edit])))
       ''scientific_name'' = JStr (js ''X'')"
    by (simp add: mount_def dialog_def form_rendered_def show_form_def registered_def
        example_species_def changed_value_def get_prop_register_inputs register_names_def
        get_prop_set_prop mounted_value_def)
  have y: "get_prop (defaultValues example_species) ''scientific_name'' = JStr (js ''Panthera leo'')"
    by (simp add: defaultValues_def example_species_def get_prop_def)
  have "js ''X'' \<noteq> js ''Panthera leo''" by (simp add: js_def)
  with x y show ?thesis
    by (auto simp: mount_def dialog_def form_rendered_def show_form_def example_species_def
        form_inputs_def)
qed

text \<open>No handler but a field's change handler and the binding of the inputs writes the
  form store. For a record without a population the binding stores 0, which the schema
  rejects: submitting the untouched form does nothing.\<close>

lemma handleSubmit_form_values:
  "form_values (fst (handleSubmit is_url supabase species st)) = form_values st"
  by (simp add: handleSubmit_def onSubmit_def Let_def split: sum.splits option.splits)

lemma step_form_values:
  "\<forall>k s. e \<noteq> Change k s \<Longrightarrow>
   form_values (fst (step is_url stn supabase species sessionId st e)) = form_values st
   \<or> form_values (fst (step is_url stn supabase species sessionId st e))
       = register_inputs stn (form_values st)"
  by (cases e) (simp_all add: handleSubmit_form_values show_form_def)

lemma null_population_blocks_submission:
  assumes "author species = sessionId" and "total_population species = None"
  shows "get_prop (form_values (fst (run is_url stn supabase species sessionId (mount species)
            [Learn_More, Edit]))) ''total_population'' = JNum (Fin 0)
    \<and> snd (run is_url stn supabase species sessionId (mount species)
            [Learn_More, Edit, Submit]) = []"
proof -
  let ?st = "\<lparr>dialogOpen = True, isEditing = True,
      form_values = register_inputs stn (defaultValues species)\<rparr>"
  have g: "get_prop (form_values ?st) ''total_population'' = JNum (Fin 0)"
    using assms(2)
    by (simp add: register_inputs_defaultValues get_prop_set_prop nullable_js_def setValueAs_def
        Number_def)
  have "isl (total_population_schema (JNum (Fin 0)))"
    by (simp add: total_population_schema_def nullable_def z_number_def checked_def
        z_int_def z_positive_def z_min_def)
  with g have "handleSubmit is_url supabase species ?st = (?st, [])"
    using total_population_blocks [of ?st is_url supabase species] by simp
  with g show ?thesis
    using assms(1)
    by (simp add: mount_def dialog_def form_rendered_def show_form_def)
qed

end
